theory Spec2Isabelle
  imports Main "HOL-Library.Sublist"
begin

section \<open>The Grafana link component (web/app/js/components/GrafanaLink.jsx)\<close>

subsection \<open>JavaScript values, strings and arrays\<close>

text \<open>
  The props of a React component are untyped. The values modelled here are the ones a
  caller passing strings, or leaving a prop out, can hand over: a string, \<open>undefined\<close>
  and \<open>null\<close>. A string is a \<open>char list\<close>; the only character the component inspects
  is the ASCII separator \<open>/\<close>, which is one unit in UTF-16 and one byte in UTF-8 and
  occurs inside no longer encoding, so the splitting below does not depend on the encoding.
\<close>

datatype jsval = JUndefined | JNull | JString string

datatype js_error = TypeError

text \<open>
  Interpolation \<open>${v}\<close> in a template literal converts the value to a string:
  \<open>undefined\<close> and \<open>null\<close> become the words themselves.
\<close>

fun ToString :: "jsval \<Rightarrow> string" where
  "ToString JUndefined = ''undefined''"
| "ToString JNull = ''null''"
| "ToString (JString s) = s"

text \<open>
  \<open>String.prototype.split\<close> with a one-character separator and no limit: the input is
  scanned from the left, \<open>cur\<close> holds the characters read since the last separator, every
  separator closes the current part, and the end of the input closes the last one. The
  result therefore always has at least one element (\<open>"".split("/")\<close> is \<open>[""]\<close>).
\<close>

fun split_from :: "char \<Rightarrow> string \<Rightarrow> string \<Rightarrow> string list" where
  "split_from sep cur [] = [cur]"
| "split_from sep cur (c # cs) =
     (if c = sep then cur # split_from sep [] cs else split_from sep (cur @ [c]) cs)"

definition split :: "string \<Rightarrow> char \<Rightarrow> string list" where
  "split s sep = split_from sep [] s"

text \<open>
  The method call \<open>v.split("/")\<close> on a prop value: reading a property of \<open>undefined\<close>
  or \<open>null\<close> throws a TypeError, on a string it splits.
\<close>

fun call_split :: "jsval \<Rightarrow> char \<Rightarrow> js_error + string list" where
  "call_split (JString s) sep = Inr (split s sep)"
| "call_split JUndefined sep = Inl TypeError"
| "call_split JNull sep = Inl TypeError"

text \<open>Array indexing \<open>a[i]\<close>: out of range it yields \<open>undefined\<close>, it never throws.\<close>

definition index :: "string list \<Rightarrow> nat \<Rightarrow> jsval" where
  "index a i = (if i < length a then JString (a ! i) else JUndefined)"

subsection \<open>Props, component instance and rendered element\<close>

record 'c props =
  name :: jsval
  resource :: jsval
  conduitLink :: 'c

text \<open>
  The instance \<open>this\<close> of a \<open>React.Component\<close> carries its props and a state. The props
  record is extensible: a caller may pass further props.
\<close>

record ('c, 'x, 's) GrafanaLink =
  props :: "('c, 'x) props_scheme"
  state :: 's

text \<open>
  The children of the rendered element, in the order of the JSX: an embedded expression
  \<open>{e}\<close>, literal text, or a host element with its tag and attributes.
\<close>

datatype child = Expr jsval | JSXText string | JSXElement string "(string \<times> string) list"

text \<open>
  The element \<open>React.createElement(type, {to, deployment, targetBlank}, ...children)\<close>
  that the JSX of \<open>render\<close> stands for.
\<close>

record 'c element =
  component :: 'c
  to :: string
  deployment :: string
  targetBlank :: bool
  children :: "child list"

text \<open>The entity \<open>&nbsp;\<close> is U+00A0, in UTF-8 the two bytes C2 A0.\<close>

definition nbsp :: string where
  "nbsp = [CHR 0xC2, CHR 0xA0]"

subsection \<open>render\<close>

definition render :: "('c, 'x, 's) GrafanaLink \<Rightarrow> js_error + 'c element" where
  "render this =
     (case call_split (props.name (props this)) CHR ''/'' of
        Inl e \<Rightarrow> Inl e
      | Inr ownerInfo \<Rightarrow>
          (let namespace = index ownerInfo 0;
               name = index ownerInfo 1
           in Inr \<lparr>component = conduitLink (props this),
                   to = ''/dashboard/db/conduit-'' @ ToString (resource (props this))
                        @ ''?var-namespace='' @ ToString namespace
                        @ ''&var-'' @ ToString (resource (props this))
                        @ ''='' @ ToString name,
                   deployment = ''grafana'',
                   targetBlank = True,
                   children = [Expr (props.name (props this)),
                               JSXText (nbsp @ nbsp),
                               JSXElement ''i'' [(''className'', ''fa fa-external-link'')]]\<rparr>))"

text \<open>The component instance a caller creates from an identifier, a resource type and a link component.\<close>

definition mk :: "string \<Rightarrow> string \<Rightarrow> 'c \<Rightarrow> ('c, unit, unit) GrafanaLink" where
  "mk ident r k = \<lparr>props = \<lparr>name = JString ident, resource = JString r, conduitLink = k\<rparr>, state = ()\<rparr>"

subsection \<open>render with the program state explicit\<close>

text \<open>
  JavaScript code can read and assign anything it can reach: the fields of \<open>this\<close> and
  the global objects. The world holds both. A computation takes the world and returns a
  value or a thrown error together with the world it leaves behind.
\<close>

record ('c, 'x, 's, 'g) world =
  inst :: "('c, 'x, 's) GrafanaLink"
  globals :: 'g

type_synonym ('w, 'a) js = "'w \<Rightarrow> (js_error + 'a) \<times> 'w"

definition js_return :: "'a \<Rightarrow> ('w, 'a) js" where
  "js_return a = (\<lambda>w. (Inr a, w))"

definition js_throw :: "js_error \<Rightarrow> ('w, 'a) js" where
  "js_throw e = (\<lambda>w. (Inl e, w))"

text \<open>Sequencing: a thrown error skips the rest, the world is handed on.\<close>

definition js_bind :: "('w, 'a) js \<Rightarrow> ('a \<Rightarrow> ('w, 'b) js) \<Rightarrow> ('w, 'b) js" where
  "js_bind m f = (\<lambda>w. case m w of (Inl e, w') \<Rightarrow> (Inl e, w') | (Inr a, w') \<Rightarrow> f a w')"

text \<open>The property read \<open>this.props.field\<close>.\<close>

definition this_props ::
  "(('c, 'x) props_scheme \<Rightarrow> 'a) \<Rightarrow> (('c, 'x, 's, 'g) world, 'a) js" where
  "this_props field = (\<lambda>w. (Inr (field (props (inst w))), w))"

text \<open>
  The built-in \<open>split\<close> works on its receiver alone: it returns a new array or throws.
\<close>

definition method_split :: "jsval \<Rightarrow> char \<Rightarrow> ('w, string list) js" where
  "method_split v sep = (case call_split v sep of Inl e \<Rightarrow> js_throw e | Inr a \<Rightarrow> js_return a)"

text \<open>
  The statements of \<open>render\<close> in the order in which they are evaluated: the receiver of
  \<open>split\<close>, the two local variables, then the element type, the interpolations of the
  template literal from left to right, and the first child.
\<close>

definition render_in :: "(('c, 'x, 's, 'g) world, 'c element) js" where
  "render_in =
     js_bind (this_props props.name) (\<lambda>v.
     js_bind (method_split v CHR ''/'') (\<lambda>ownerInfo.
       let namespace = index ownerInfo 0;
           name = index ownerInfo 1
       in
     js_bind (this_props conduitLink) (\<lambda>link.
     js_bind (this_props resource) (\<lambda>resource1.
     js_bind (this_props resource) (\<lambda>resource2.
     js_bind (this_props props.name) (\<lambda>shown.
     js_return \<lparr>component = link,
                to = ''/dashboard/db/conduit-'' @ ToString resource1
                     @ ''?var-namespace='' @ ToString namespace
                     @ ''&var-'' @ ToString resource2
                     @ ''='' @ ToString name,
                deployment = ''grafana'',
                targetBlank = True,
                children = [Expr shown,
                            JSXText (nbsp @ nbsp),
                            JSXElement ''i'' [(''className'', ''fa fa-external-link'')]]\<rparr>))))))"

text \<open>
  Two worlds whose instances carry the same three props and differ in everything else:
  a further prop, the state of the instance and the globals.
\<close>

definition world_a :: "(unit, bool, nat, string) world" where
  "world_a = \<lparr>inst = \<lparr>props = \<lparr>name = JString ''default/api'', resource = JString ''deployment'',
                                   conduitLink = (), \<dots> = True\<rparr>,
                         state = 1\<rparr>,
               globals = ''x''\<rparr>"

definition world_b :: "(unit, string, bool, int) world" where
  "world_b = \<lparr>inst = \<lparr>props = \<lparr>name = JString ''default/api'', resource = JString ''deployment'',
                                   conduitLink = (), \<dots> = ''extra''\<rparr>,
                         state = False\<rparr>,
               globals = 2\<rparr>"

section \<open>The smoke-test manifest\<close>

text \<open>
  The manifest is a stream of four YAML documents. A YAML value is a string scalar, an
  integer scalar, a sequence or a mapping; the documents are transcribed key by key, in
  the order of the file.
\<close>

datatype yaml = Str string | Num int | Seq "yaml list" | Map "(string \<times> yaml) list"

definition terminus_deployment :: yaml where
  "terminus_deployment = Map
     [(''apiVersion'', Str ''apps/v1beta1''),
      (''kind'', Str ''Deployment''),
      (''metadata'', Map [(''name'', Str ''smoke-test-terminus'')]),
      (''spec'', Map
         [(''replicas'', Num 1),
          (''selector'', Map [(''matchLabels'', Map [(''app'', Str ''smoke-test-terminus'')])]),
          (''template'', Map
             [(''metadata'', Map [(''labels'', Map [(''app'', Str ''smoke-test-terminus'')])]),
              (''spec'', Map
                 [(''containers'', Seq
                     [Map [(''name'', Str ''http-to-grpc''),
                           (''image'', Str ''buoyantio/bb:v0.0.1''),
                           (''args'', Seq [Str ''terminus'', Str ''--grpc-server-port'', Str ''9090'',
                                           Str ''--response-text'', Str ''BANANA'']),
                           (''ports'', Seq [Map [(''containerPort'', Num 9090)]])]])])])])]"

definition terminus_svc :: yaml where
  "terminus_svc = Map
     [(''apiVersion'', Str ''v1''),
      (''kind'', Str ''Service''),
      (''metadata'', Map [(''name'', Str ''smoke-test-terminus-svc'')]),
      (''spec'', Map
         [(''selector'', Map [(''app'', Str ''smoke-test-terminus'')]),
          (''ports'', Seq [Map [(''name'', Str ''grpc''), (''port'', Num 9090),
                                (''targetPort'', Num 9090)]])])]"

definition gateway_deployment :: yaml where
  "gateway_deployment = Map
     [(''apiVersion'', Str ''apps/v1beta1''),
      (''kind'', Str ''Deployment''),
      (''metadata'', Map [(''name'', Str ''smoke-test-gateway'')]),
      (''spec'', Map
         [(''replicas'', Num 1),
          (''selector'', Map [(''matchLabels'', Map [(''app'', Str ''smoke-test-gateway'')])]),
          (''template'', Map
             [(''metadata'', Map [(''labels'', Map [(''app'', Str ''smoke-test-gateway'')])]),
              (''spec'', Map
                 [(''containers'', Seq
                     [Map [(''name'', Str ''http-to-grpc''),
                           (''image'', Str ''buoyantio/bb:v0.0.1''),
                           (''args'', Seq [Str ''point-to-point-channel'',
                                           Str ''--grpc-downstream-server'',
                                           Str ''smoke-test-terminus-svc:9090'',
                                           Str ''--h1-server-port'', Str ''8080'']),
                           (''ports'', Seq [Map [(''containerPort'', Num 8080)]])]])])])])]"

definition gateway_svc :: yaml where
  "gateway_svc = Map
     [(''apiVersion'', Str ''v1''),
      (''kind'', Str ''Service''),
      (''metadata'', Map [(''name'', Str ''smoke-test-gateway-svc'')]),
      (''spec'', Map
         [(''selector'', Map [(''app'', Str ''smoke-test-gateway'')]),
          (''type'', Str ''LoadBalancer''),
          (''ports'', Seq [Map [(''name'', Str ''http''), (''port'', Num 8080),
                                (''targetPort'', Num 8080)]])])]"

definition manifest :: "yaml list" where
  "manifest = [terminus_deployment, terminus_svc, gateway_deployment, gateway_svc]"

text \<open>
  Reading the manifest: a path is a list of mapping keys and sequence positions; a key
  that is absent, a position out of range or a step into a scalar gives \<open>None\<close>.
\<close>

datatype step = Key string | Idx nat

fun get :: "step \<Rightarrow> yaml \<Rightarrow> yaml option" where
  "get (Key k) (Map kvs) = map_of kvs k"
| "get (Idx i) (Seq ys) = (if i < length ys then Some (ys ! i) else None)"
| "get _ _ = None"

fun get_path :: "step list \<Rightarrow> yaml \<Rightarrow> yaml option" where
  "get_path [] y = Some y"
| "get_path (p # ps) y = (case get p y of None \<Rightarrow> None | Some v \<Rightarrow> get_path ps v)"

definition of_kind :: "string \<Rightarrow> yaml list" where
  "of_kind k = filter (\<lambda>d. get (Key ''kind'') d = Some (Str k)) manifest"

definition doc_name :: "yaml \<Rightarrow> yaml option" where
  "doc_name d = get_path [Key ''metadata'', Key ''name''] d"

definition service_type :: "yaml \<Rightarrow> yaml option" where
  "service_type d = get_path [Key ''spec'', Key ''type''] d"

definition service_port :: "yaml \<Rightarrow> yaml option" where
  "service_port d = get_path [Key ''spec'', Key ''ports'', Idx 0, Key ''port''] d"

definition service_selector :: "yaml \<Rightarrow> yaml option" where
  "service_selector d = get_path [Key ''spec'', Key ''selector''] d"

definition pod_labels :: "yaml \<Rightarrow> yaml option" where
  "pod_labels d = get_path [Key ''spec'', Key ''template'', Key ''metadata'', Key ''labels''] d"

definition container_args :: "yaml \<Rightarrow> yaml list" where
  "container_args d =
     (case get_path [Key ''spec'', Key ''template'', Key ''spec'', Key ''containers'', Idx 0,
                     Key ''args''] d of
        Some (Seq as) \<Rightarrow> as
      | _ \<Rightarrow> [])"

text \<open>The value that follows a flag on a command line.\<close>

fun arg_after :: "yaml \<Rightarrow> yaml list \<Rightarrow> yaml option" where
  "arg_after flag (x # y # ys) = (if x = flag then Some y else arg_after flag (y # ys))"
| "arg_after flag _ = None"

section \<open>Properties of render\<close>

subsection \<open>Facts about split and indexing\<close>

lemma split_from_no_sep: "sep \<notin> set xs \<Longrightarrow> split_from sep cur xs = [cur @ xs]"
  by (induction xs arbitrary: cur) auto

lemma split_from_first:
  "sep \<notin> set xs \<Longrightarrow> split_from sep cur (xs @ sep # ys) = (cur @ xs) # split_from sep [] ys"
  by (induction xs arbitrary: cur) auto

lemma length_split_from: "length (split_from sep cur s) = Suc (count_list s sep)"
  by (induction s arbitrary: cur) auto

lemma hd_split_from: "hd (split_from sep cur s) = cur @ takeWhile (\<lambda>c. c \<noteq> sep) s"
  by (induction s arbitrary: cur) auto

lemma split_first: "sep \<notin> set ns \<Longrightarrow> split (ns @ sep # rest) sep = ns # split rest sep"
  by (simp add: split_def split_from_first)

lemma split_no_sep: "sep \<notin> set s \<Longrightarrow> split s sep = [s]"
  by (simp add: split_def split_from_no_sep)

lemma length_split: "length (split s sep) = Suc (count_list s sep)"
  by (simp add: split_def length_split_from)

lemma hd_split: "hd (split s sep) = takeWhile (\<lambda>c. c \<noteq> sep) s"
  by (simp add: split_def hd_split_from)

lemma split_nonempty: "split s sep \<noteq> []"
  using length_split [of s sep] by auto

lemma index_0: "index (split s sep) 0 = JString (takeWhile (\<lambda>c. c \<noteq> sep) s)"
  using split_nonempty [of s sep] hd_split [of s sep]
  by (cases "split s sep") (auto simp: index_def)

lemma index_0_first: "sep \<notin> set ns \<Longrightarrow> index (split (ns @ sep # rest) sep) 0 = JString ns"
  by (simp add: split_first index_def)

lemma index_1_first:
  "sep \<notin> set ns \<Longrightarrow>
   index (split (ns @ sep # rest) sep) 1 = JString (takeWhile (\<lambda>c. c \<noteq> sep) rest)"
  using split_nonempty [of rest sep] hd_split [of rest sep]
  by (cases "split rest sep") (auto simp: index_def split_first)

lemma index_1_no_sep: "sep \<notin> set s \<Longrightarrow> index (split s sep) 1 = JUndefined"
  by (simp add: split_no_sep index_def)

lemma two_seps:
  assumes "2 \<le> count_list s c"
  shows "\<exists>ns nm rest. s = ns @ c # nm @ c # rest \<and> c \<notin> set ns \<and> c \<notin> set nm"
proof -
  from assms have "c \<in> set s" using count_list_0_iff [of s c] by auto
  then obtain ns s' where s: "s = ns @ c # s'" and ns: "c \<notin> set ns"
    by (auto dest: split_list_first)
  from ns have "count_list ns c = 0" by (simp add: count_list_0_iff)
  with assms s have "1 \<le> count_list s' c" by simp
  then have "c \<in> set s'" using count_list_0_iff [of s' c] by auto
  then obtain nm rest where s': "s' = nm @ c # rest" and nm: "c \<notin> set nm"
    by (auto dest: split_list_first)
  from s s' ns nm show ?thesis by blast
qed

text \<open>What render returns when the \<open>name\<close> prop is a string: it does not throw.\<close>

lemma render_string:
  assumes "props.name (props this) = JString s"
  shows "render this =
     Inr \<lparr>component = conduitLink (props this),
          to = ''/dashboard/db/conduit-'' @ ToString (resource (props this))
               @ ''?var-namespace='' @ ToString (index (split s CHR ''/'') 0)
               @ ''&var-'' @ ToString (resource (props this))
               @ ''='' @ ToString (index (split s CHR ''/'') 1),
          deployment = ''grafana'',
          targetBlank = True,
          children = [Expr (JString s),
                      JSXText (nbsp @ nbsp),
                      JSXElement ''i'' [(''className'', ''fa fa-external-link'')]]\<rparr>"
  using assms by (simp add: render_def Let_def)

text \<open>Without a \<open>name\<close> prop the method call on \<open>undefined\<close> throws.\<close>

lemma render_name_undefined:
  "props.name (props this) = JUndefined \<Longrightarrow> render this = Inl TypeError"
  by (simp add: render_def)

subsection \<open>The claims\<close>

text \<open>
  C1. For the resource type "deployment" and the identifier "default/api", render produces a
  link whose target path is exactly
  /dashboard/db/conduit-deployment?var-namespace=default&var-deployment=api.
\<close>

theorem render_default_api:
  "map_sum id to (render (mk ''default/api'' ''deployment'' k))
     = Inr ''/dashboard/db/conduit-deployment?var-namespace=default&var-deployment=api''"
  by (simp add: render_def mk_def split_def index_def)

text \<open>
  C2. For every well-formed identifier ns/name, with ns and name non-empty and free of the
  separator, and every resource type string r, the target of the rendered link contains
  the substring var-namespace=ns and the substring var-r=name.
\<close>

theorem render_well_formed_contains:
  assumes "ns \<noteq> []" and "nm \<noteq> []"
    and "CHR ''/'' \<notin> set ns" and "CHR ''/'' \<notin> set nm"
    and "props.name (props this) = JString (ns @ ''/'' @ nm)"
    and "resource (props this) = JString r"
  shows "\<exists>e. render this = Inr e
           \<and> sublist (''var-namespace='' @ ns) (to e)
           \<and> sublist (''var-'' @ r @ ''='' @ nm) (to e)"
proof -
  let ?s = "ns @ ''/'' @ nm"
  from assms(3) have i0: "index (split ?s CHR ''/'') 0 = JString ns"
    by (simp add: index_0_first)
  from assms(3,4) have i1: "index (split ?s CHR ''/'') 1 = JString nm"
    by (simp add: split_first split_no_sep index_def)
  let ?url = "''/dashboard/db/conduit-'' @ r @ ''?var-namespace='' @ ns
                @ ''&var-'' @ r @ ''='' @ nm"
  from assms(5,6) i0 i1 obtain e where e: "render this = Inr e" and url: "to e = ?url"
    by (simp add: render_string)
  have "?url = (''/dashboard/db/conduit-'' @ r @ ''?'') @ (''var-namespace='' @ ns)
                 @ (''&var-'' @ r @ ''='' @ nm)"
    by simp
  then have a: "sublist (''var-namespace='' @ ns) ?url"
    by (simp only: sublist_appendI)
  have "?url = (''/dashboard/db/conduit-'' @ r @ ''?var-namespace='' @ ns @ ''&'')
                 @ (''var-'' @ r @ ''='' @ nm)"
    by simp
  then have b: "sublist (''var-'' @ r @ ''='' @ nm) ?url"
    by (simp only: sublist_append_leftI)
  from e url a b show ?thesis by simp
qed

theorem render_well_formed_contains_witness:
  "''default'' \<noteq> [] \<and> ''api'' \<noteq> []
   \<and> CHR ''/'' \<notin> set ''default'' \<and> CHR ''/'' \<notin> set ''api''
   \<and> (\<exists>e. render (mk ''default/api'' ''deployment'' ()) = Inr e
         \<and> sublist ''var-namespace=default'' (to e)
         \<and> sublist ''var-deployment=api'' (to e))"
  using render_well_formed_contains
    [of "''default''" "''api''" "mk ''default/api'' ''deployment'' ()" "''deployment''"]
  by (simp add: mk_def)

text \<open>
  C3, as the specification states it: every identifier that contains a separator is split
  into exactly two parts, and with more than one separator the name is everything after the
  first one. The identifier a/b/c refutes this: split returns the three parts a, b and c,
  and the name that reaches the URL is b, not b/c.
\<close>

theorem render_exactly_two_parts_counterexample:
  "length (split ''a/b/c'' CHR ''/'') = 3
   \<and> index (split ''a/b/c'' CHR ''/'') 1 = JString ''b''
   \<and> index (split ''a/b/c'' CHR ''/'') 1 \<noteq> JString ''b/c''
   \<and> map_sum id to (render (mk ''a/b/c'' ''deployment'' ()))
       = Inr ''/dashboard/db/conduit-deployment?var-namespace=a&var-deployment=b''"
  by (simp add: render_def mk_def split_def index_def)

text \<open>
  C3, amended. Every identifier that contains a separator is ns/rest, where ns holds no
  separator and so is everything before the first one. split cuts at every separator,
  giving two parts plus one for each separator in rest. The namespace is ns, the name is
  rest up to its first separator: all of rest, with exactly the two parts ns and rest,
  when rest holds no separator. Namespace and name are both embedded in the target.
\<close>

theorem render_splits_at_separators:
  assumes "CHR ''/'' \<in> set s"
    and "props.name (props this) = JString s"
  shows "\<exists>ns rest e. s = ns @ ''/'' @ rest \<and> CHR ''/'' \<notin> set ns
           \<and> length (split s CHR ''/'') = 2 + count_list rest CHR ''/''
           \<and> index (split s CHR ''/'') 0 = JString ns
           \<and> index (split s CHR ''/'') 1 = JString (takeWhile (\<lambda>c. c \<noteq> CHR ''/'') rest)
           \<and> (if CHR ''/'' \<in> set rest then 2 < length (split s CHR ''/'')
               else split s CHR ''/'' = [ns, rest])
           \<and> render this = Inr e
           \<and> to e = ''/dashboard/db/conduit-'' @ ToString (resource (props this))
                     @ ''?var-namespace='' @ ns
                     @ ''&var-'' @ ToString (resource (props this))
                     @ ''='' @ takeWhile (\<lambda>c. c \<noteq> CHR ''/'') rest"
proof -
  from assms(1) obtain ns rest where s: "s = ns @ CHR ''/'' # rest" and ns: "CHR ''/'' \<notin> set ns"
    by (auto dest: split_list_first)
  from ns have c0: "count_list ns CHR ''/'' = 0"
    by (simp add: count_list_0_iff)
  have len: "length (split s CHR ''/'') = 2 + count_list rest CHR ''/''"
    using c0 by (simp add: s length_split)
  have i0: "index (split s CHR ''/'') 0 = JString ns"
    using ns by (simp add: s index_0_first)
  have i1: "index (split s CHR ''/'') 1 = JString (takeWhile (\<lambda>c. c \<noteq> CHR ''/'') rest)"
    using index_1_first [OF ns, of rest] by (simp add: s)
  have parts: "if CHR ''/'' \<in> set rest then 2 < length (split s CHR ''/'')
               else split s CHR ''/'' = [ns, rest]"
  proof (cases "CHR ''/'' \<in> set rest")
    case True
    then have "count_list rest CHR ''/'' \<noteq> 0" by (simp add: count_list_0_iff)
    with len True show ?thesis by simp
  next
    case False
    with ns show ?thesis by (simp add: s split_first split_no_sep)
  qed
  from assms(2) i0 i1 obtain e where e: "render this = Inr e"
    and url: "to e = ''/dashboard/db/conduit-'' @ ToString (resource (props this))
                     @ ''?var-namespace='' @ ns
                     @ ''&var-'' @ ToString (resource (props this))
                     @ ''='' @ takeWhile (\<lambda>c. c \<noteq> CHR ''/'') rest"
    by (simp add: render_string)
  from s ns len i0 i1 parts e url show ?thesis
    by (intro exI [of _ ns] exI [of _ rest] exI [of _ e]) simp
qed

theorem render_splits_at_separators_witness:
  "CHR ''/'' \<in> set ''default/api'' \<and>
   (\<exists>ns rest e. ''default/api'' = ns @ ''/'' @ rest \<and> CHR ''/'' \<notin> set ns
      \<and> length (split ''default/api'' CHR ''/'') = 2 + count_list rest CHR ''/''
      \<and> index (split ''default/api'' CHR ''/'') 0 = JString ns
      \<and> index (split ''default/api'' CHR ''/'') 1 = JString (takeWhile (\<lambda>c. c \<noteq> CHR ''/'') rest)
      \<and> (if CHR ''/'' \<in> set rest then 2 < length (split ''default/api'' CHR ''/'')
               else split ''default/api'' CHR ''/'' = [ns, rest])
      \<and> render (mk ''default/api'' ''deployment'' ()) = Inr e
      \<and> to e = ''/dashboard/db/conduit-'' @ ''deployment''
                     @ ''?var-namespace='' @ ns
                     @ ''&var-'' @ ''deployment''
                     @ ''='' @ takeWhile (\<lambda>c. c \<noteq> CHR ''/'') rest)"
  using render_splits_at_separators [of "''default/api''" "mk ''default/api'' ''deployment'' ()"]
  by (simp add: mk_def)

text \<open>
  C4. For every identifier, resource type and link component, render creates the element of
  the supplied link component with the target label (the prop deployment) fixed to "grafana"
  and the prop targetBlank set to true; neither depends on the inputs.
\<close>

theorem render_fixed_label_and_new_tab:
  assumes "props.name (props this) = JString s"
  shows "\<exists>e. render this = Inr e
           \<and> component e = conduitLink (props this)
           \<and> deployment e = ''grafana''
           \<and> targetBlank e = True"
  using assms by (simp add: render_string)

theorem render_fixed_label_and_new_tab_witness:
  "\<exists>e. render (mk ''default/api'' ''deployment'' (0::nat)) = Inr e
       \<and> component e = 0
       \<and> deployment e = ''grafana''
       \<and> targetBlank e = True"
  using render_fixed_label_and_new_tab [of "mk ''default/api'' ''deployment'' (0::nat)" "''default/api''"]
  by (simp add: mk_def)

text \<open>
  C5. For every identifier, the first child of the rendered link is the identifier exactly
  as the caller supplied it, unsplit; it is followed by two non-breaking spaces and the
  external-link glyph, the host element i with class "fa fa-external-link".
\<close>

theorem render_shows_identifier:
  assumes "props.name (props this) = JString s"
  shows "\<exists>e. render this = Inr e
           \<and> children e = [Expr (JString s), JSXText (nbsp @ nbsp),
                            JSXElement ''i'' [(''className'', ''fa fa-external-link'')]]"
  using assms by (simp add: render_string)

theorem render_shows_identifier_witness:
  "\<exists>e. render (mk ''a/b/c'' ''deployment'' ()) = Inr e
       \<and> children e = [Expr (JString ''a/b/c''), JSXText (nbsp @ nbsp),
                        JSXElement ''i'' [(''className'', ''fa fa-external-link'')]]"
  using render_shows_identifier [of "mk ''a/b/c'' ''deployment'' ()" "''a/b/c''"]
  by (simp add: mk_def)

text \<open>
  C6. When the identifier contains at least one separator, the array that split returns
  in render has more than one element, so index 0 (the namespace) and index 1 (the name)
  are both strings, the elements at these positions: the undefined branch of the indexing
  is not taken, and the target that render returns carries these two strings.
\<close>

theorem render_indices_defined:
  assumes "CHR ''/'' \<in> set s"
    and "props.name (props this) = JString s"
  shows "\<exists>ownerInfo a b e. call_split (props.name (props this)) CHR ''/'' = Inr ownerInfo
           \<and> 1 < length ownerInfo
           \<and> index ownerInfo 0 = JString a \<and> a = ownerInfo ! 0
           \<and> index ownerInfo 1 = JString b \<and> b = ownerInfo ! 1
           \<and> render this = Inr e
           \<and> to e = ''/dashboard/db/conduit-'' @ ToString (resource (props this))
                     @ ''?var-namespace='' @ a
                     @ ''&var-'' @ ToString (resource (props this))
                     @ ''='' @ b"
proof -
  from assms(1) have "count_list s CHR ''/'' \<noteq> 0"
    by (simp add: count_list_0_iff)
  then have len: "1 < length (split s CHR ''/'')"
    by (simp add: length_split)
  then have i0: "index (split s CHR ''/'') 0 = JString (split s CHR ''/'' ! 0)"
    and i1: "index (split s CHR ''/'') 1 = JString (split s CHR ''/'' ! 1)"
    by (simp_all add: index_def split_nonempty)
  from assms(2) i0 i1 obtain e where e: "render this = Inr e"
    and url: "to e = ''/dashboard/db/conduit-'' @ ToString (resource (props this))
                     @ ''?var-namespace='' @ split s CHR ''/'' ! 0
                     @ ''&var-'' @ ToString (resource (props this))
                     @ ''='' @ split s CHR ''/'' ! 1"
    by (simp add: render_string)
  from assms(2) len i0 i1 e url show ?thesis
    by (intro exI [of _ "split s CHR ''/''"] exI [of _ "split s CHR ''/'' ! 0"]
          exI [of _ "split s CHR ''/'' ! 1"] exI [of _ e]) simp
qed

theorem render_indices_defined_witness:
  "CHR ''/'' \<in> set ''default/api''
   \<and> (\<exists>ownerInfo a b e. call_split (JString ''default/api'') CHR ''/'' = Inr ownerInfo
         \<and> 1 < length ownerInfo
         \<and> index ownerInfo 0 = JString a \<and> a = ownerInfo ! 0
         \<and> index ownerInfo 1 = JString b \<and> b = ownerInfo ! 1
         \<and> render (mk ''default/api'' ''deployment'' ()) = Inr e
         \<and> to e = ''/dashboard/db/conduit-deployment?var-namespace='' @ a
                   @ ''&var-deployment='' @ b)"
  using render_indices_defined [of "''default/api''" "mk ''default/api'' ''deployment'' ()"]
  by (simp add: mk_def)

text \<open>
  C7. render is pure and deterministic. Run in any world, it hands the world back
  unchanged, whether it returns or throws, and its result is the value of render on the
  instance. Two runs whose name, resource and conduitLink props are equal give equal
  results, whatever else the two worlds hold: the state of the instance, further props
  and the globals are neither read nor written.
\<close>

theorem render_pure_and_deterministic:
  assumes "props.name (props (inst w)) = props.name (props (inst w'))"
    and "resource (props (inst w)) = resource (props (inst w'))"
    and "conduitLink (props (inst w)) = conduitLink (props (inst w'))"
  shows "fst (render_in w) = fst (render_in w')
         \<and> snd (render_in w) = w \<and> snd (render_in w') = w'
         \<and> fst (render_in w) = render (inst w)
         \<and> render (inst w) = render (inst w')"
proof -
  have a: "render_in w = (render (inst w), w)"
    by (cases "props.name (props (inst w))")
       (simp_all add: render_in_def render_def js_bind_def this_props_def method_split_def
          js_return_def js_throw_def Let_def)
  have b: "render_in w' = (render (inst w'), w')"
    by (cases "props.name (props (inst w'))")
       (simp_all add: render_in_def render_def js_bind_def this_props_def method_split_def
          js_return_def js_throw_def Let_def)
  have c: "render (inst w) = render (inst w')"
    by (simp only: render_def assms)
  from a b c show ?thesis by simp
qed

theorem render_pure_and_deterministic_witness:
  "props.name (props (inst world_a)) = props.name (props (inst world_b))
   \<and> resource (props (inst world_a)) = resource (props (inst world_b))
   \<and> conduitLink (props (inst world_a)) = conduitLink (props (inst world_b))
   \<and> fst (render_in world_a) = fst (render_in world_b)
   \<and> snd (render_in world_a) = world_a \<and> snd (render_in world_b) = world_b
   \<and> fst (render_in world_a) = render (inst world_a)
   \<and> render (inst world_a) = render (inst world_b)"
proof -
  have h: "props.name (props (inst world_a)) = props.name (props (inst world_b))"
    "resource (props (inst world_a)) = resource (props (inst world_b))"
    "conduitLink (props (inst world_a)) = conduitLink (props (inst world_b))"
    by (simp_all add: world_a_def world_b_def)
  from h render_pure_and_deterministic [OF h] show ?thesis by blast
qed

text \<open>
  C8. The manifest holds four documents: exactly two workloads (kind Deployment), the
  responder smoke-test-terminus and the forwarder smoke-test-gateway, and exactly two
  services, of which smoke-test-gateway-svc has type LoadBalancer and smoke-test-terminus-svc
  declares no type and is therefore only addressable inside the cluster. The forwarder's
  argument after --grpc-downstream-server is smoke-test-terminus-svc:9090; the service named
  smoke-test-terminus-svc exposes port 9090 and selects the pods of the responder.
\<close>

theorem manifest_wiring:
  "length manifest = 4
   \<and> map doc_name (of_kind ''Deployment'')
       = [Some (Str ''smoke-test-terminus''), Some (Str ''smoke-test-gateway'')]
   \<and> map doc_name (of_kind ''Service'')
       = [Some (Str ''smoke-test-terminus-svc''), Some (Str ''smoke-test-gateway-svc'')]
   \<and> map service_type (of_kind ''Service'') = [None, Some (Str ''LoadBalancer'')]
   \<and> arg_after (Str ''--grpc-downstream-server'') (container_args gateway_deployment)
       = Some (Str ''smoke-test-terminus-svc:9090'')
   \<and> doc_name terminus_svc = Some (Str ''smoke-test-terminus-svc'')
   \<and> service_port terminus_svc = Some (Num 9090)
   \<and> service_selector terminus_svc = pod_labels terminus_deployment
   \<and> arg_after (Str ''--response-text'') (container_args terminus_deployment)
       = Some (Str ''BANANA'')"
  by (simp add: manifest_def of_kind_def doc_name_def service_type_def service_port_def
      service_selector_def pod_labels_def container_args_def
      terminus_deployment_def terminus_svc_def gateway_deployment_def gateway_svc_def)

text \<open>
  C9. For every identifier without a separator render still returns a link and raises no
  error: index 1 of the split result is undefined, so the name parameter of the target
  is the text "undefined", and the namespace parameter is the whole identifier.
\<close>

theorem render_without_separator:
  assumes "CHR ''/'' \<notin> set s"
    and "props.name (props this) = JString s"
  shows "\<exists>e. render this = Inr e
           \<and> index (split s CHR ''/'') 0 = JString s
           \<and> index (split s CHR ''/'') 1 = JUndefined
           \<and> to e = ''/dashboard/db/conduit-'' @ ToString (resource (props this))
                     @ ''?var-namespace='' @ s
                     @ ''&var-'' @ ToString (resource (props this))
                     @ ''=undefined''"
  using assms by (simp add: render_string split_no_sep index_def)

theorem render_without_separator_witness:
  "CHR ''/'' \<notin> set ''api''
   \<and> (\<exists>e. render (mk ''api'' ''deployment'' ()) = Inr e
         \<and> index (split ''api'' CHR ''/'') 0 = JString ''api''
         \<and> index (split ''api'' CHR ''/'') 1 = JUndefined
         \<and> to e = ''/dashboard/db/conduit-deployment?var-namespace=api&var-deployment=undefined'')"
  using render_without_separator [of "''api''" "mk ''api'' ''deployment'' ()"]
  by (simp add: mk_def)

text \<open>
  C10. Every identifier with two or more separators is ns/nm/rest with ns and nm free of
  the separator. The target carries ns as the namespace and only nm as the name; nothing
  after the second separator reaches it. The link still displays the whole identifier, so
  what is displayed after the first separator, nm/rest, differs from the name in the target.
\<close>

theorem render_drops_later_segments:
  assumes "2 \<le> count_list s CHR ''/''"
    and "props.name (props this) = JString s"
  shows "\<exists>ns nm rest e. s = ns @ ''/'' @ nm @ ''/'' @ rest
           \<and> CHR ''/'' \<notin> set ns \<and> CHR ''/'' \<notin> set nm
           \<and> render this = Inr e
           \<and> to e = ''/dashboard/db/conduit-'' @ ToString (resource (props this))
                     @ ''?var-namespace='' @ ns
                     @ ''&var-'' @ ToString (resource (props this))
                     @ ''='' @ nm
           \<and> children e = [Expr (JString (ns @ ''/'' @ nm @ ''/'' @ rest)), JSXText (nbsp @ nbsp),
                            JSXElement ''i'' [(''className'', ''fa fa-external-link'')]]
           \<and> nm \<noteq> nm @ ''/'' @ rest"
proof -
  from assms(1) obtain ns nm rest where s: "s = ns @ CHR ''/'' # nm @ CHR ''/'' # rest"
    and ns: "CHR ''/'' \<notin> set ns" and nm: "CHR ''/'' \<notin> set nm"
    using two_seps [of s "CHR ''/''"] by blast
  have i0: "index (split s CHR ''/'') 0 = JString ns"
    using ns by (simp add: s index_0_first)
  have i1: "index (split s CHR ''/'') 1 = JString nm"
    using ns nm by (simp add: s split_first index_def)
  from assms(2) i0 i1 obtain e where e: "render this = Inr e"
    and url: "to e = ''/dashboard/db/conduit-'' @ ToString (resource (props this))
                     @ ''?var-namespace='' @ ns
                     @ ''&var-'' @ ToString (resource (props this))
                     @ ''='' @ nm"
    and kids: "children e = [Expr (JString s), JSXText (nbsp @ nbsp),
                             JSXElement ''i'' [(''className'', ''fa fa-external-link'')]]"
    by (simp add: render_string)
  from s ns nm e url kids show ?thesis
    by (intro exI [of _ ns] exI [of _ nm] exI [of _ rest] exI [of _ e]) simp
qed

theorem render_drops_later_segments_witness:
  "2 \<le> count_list ''a/b/c'' CHR ''/''
   \<and> (\<exists>ns nm rest e. ''a/b/c'' = ns @ ''/'' @ nm @ ''/'' @ rest
           \<and> CHR ''/'' \<notin> set ns \<and> CHR ''/'' \<notin> set nm
           \<and> render (mk ''a/b/c'' ''deployment'' ()) = Inr e
           \<and> to e = ''/dashboard/db/conduit-deployment?var-namespace='' @ ns
                     @ ''&var-deployment='' @ nm
           \<and> children e = [Expr (JString (ns @ ''/'' @ nm @ ''/'' @ rest)), JSXText (nbsp @ nbsp),
                            JSXElement ''i'' [(''className'', ''fa fa-external-link'')]]
           \<and> nm \<noteq> nm @ ''/'' @ rest)"
  using render_drops_later_segments [of "''a/b/c''" "mk ''a/b/c'' ''deployment'' ()"]
  by (simp add: mk_def)

end
